theory Spec2Isabelle
  imports Complex_Main "HOL-Library.Sublist" "HOL-Library.Word"
begin

section \<open>Python values and string operations used by the pipeline\<close>

text \<open>
  A Python \<open>str\<close> is modelled as a \<open>string\<close> whose characters are the code points
  below 256 (ASCII and Latin-1). The functions below are the \<open>str\<close> methods the
  source calls, restricted to that range.
\<close>

definition isspace :: "char \<Rightarrow> bool" where
  \<comment> \<open>\<open>str.isspace\<close> on one code point: TAB..CR, FS..US, SPACE, NEL, NBSP.\<close>
  "isspace c =
     (let n = (of_char c :: nat)
      in (9 \<le> n \<and> n \<le> 13) \<or> (28 \<le> n \<and> n \<le> 32) \<or> n = 133 \<or> n = 160)"

definition strip :: "string \<Rightarrow> string" where
  \<comment> \<open>\<open>s.strip()\<close>: leading and trailing whitespace removed.\<close>
  "strip s = rev (dropWhile isspace (rev (dropWhile isspace s)))"

definition lower_char :: "char \<Rightarrow> char" where
  \<comment> \<open>\<open>A..Z\<close> and the Latin-1 capitals (all of \<open>0xC0..0xDE\<close> but the multiplication
      sign) move 32 code points up; every other code point below 256 is kept.\<close>
  "lower_char c =
     (let n = (of_char c :: nat)
      in if (65 \<le> n \<and> n \<le> 90) \<or> (192 \<le> n \<and> n \<le> 222 \<and> n \<noteq> 215)
         then char_of (n + 32) else c)"

definition lower :: "string \<Rightarrow> string" where
  \<comment> \<open>\<open>s.lower()\<close>\<close>
  "lower s = map lower_char s"

definition startswith :: "string \<Rightarrow> string \<Rightarrow> bool" where
  \<comment> \<open>\<open>s.startswith(p)\<close>\<close>
  "startswith s p = prefix p s"

function split_from :: "string \<Rightarrow> string \<Rightarrow> string \<Rightarrow> string list" where
  \<comment> \<open>The left-to-right scan of \<open>s.split(sep)\<close> for a non-empty \<open>sep\<close>: \<open>acc\<close> is the
      current piece, reversed.\<close>
  "split_from sep acc s =
     (if sep = [] \<or> s = [] then [rev acc]
      else if prefix sep s then rev acc # split_from sep [] (drop (length sep) s)
      else split_from sep (hd s # acc) (tl s))"
  by pat_completeness auto
termination
  by (relation "measure (\<lambda>(sep, acc, s). length s)") auto

declare split_from.simps [simp del]

definition split :: "string \<Rightarrow> string \<Rightarrow> string list" where
  \<comment> \<open>\<open>s.split(sep)\<close>; the source only calls it with a non-empty literal.\<close>
  "split s sep = split_from sep [] s"

text \<open>
  A value read from a dataset cell. The source looks at such a value in three ways only:
  \<open>isinstance(v, str)\<close>, its truth value (\<open>v or ...\<close>) and \<open>str(v)\<close>. A string is
  \<open>PStr\<close>; any other scalar is \<open>PObj t s\<close> with its truth value \<open>t\<close> and its rendering
  \<open>s\<close>.
\<close>

datatype pyval = PStr string | PObj bool string

definition PyNone :: pyval where
  "PyNone = PObj False ''None''"

definition PyNaN :: pyval where
  \<comment> \<open>the value pandas gives an empty CSV field: true in a boolean context, \<open>'nan'\<close> as text\<close>
  "PyNaN = PObj True ''nan''"

fun truthy :: "pyval \<Rightarrow> bool" where
  "truthy (PStr s) = (s \<noteq> [])"
| "truthy (PObj t s) = t"

fun py_str :: "pyval \<Rightarrow> string" where
  "py_str (PStr s) = s"
| "py_str (PObj t s) = s"

definition py_or :: "pyval \<Rightarrow> pyval \<Rightarrow> pyval" where
  \<comment> \<open>\<open>a or b\<close>\<close>
  "py_or a b = (if truthy a then a else b)"

datatype exn = ValueError string | FileNotFoundError string | LibraryError string

fun exn_str :: "exn \<Rightarrow> string" where
  \<comment> \<open>\<open>str(exc)\<close>: the message the exception was raised with\<close>
  "exn_str (ValueError m) = m"
| "exn_str (FileNotFoundError m) = m"
| "exn_str (LibraryError m) = m"

section \<open>recommender/mood\_recommender.py\<close>

text \<open>
  One row of the dataframe \<open>_df\<close>. A text column that the CSV does not have is \<open>None\<close>
  (\<open>row.get\<close> then gives its default); the three audio features are numbers, compared
  exactly.
\<close>

record row =
  r_id :: "pyval option"
  r_song_name :: "pyval option"
  r_title :: "pyval option"
  r_genre :: "pyval option"
  r_artist :: "pyval option"
  r_uri :: "pyval option"
  valence :: rat
  energy :: rat
  acousticness :: rat

record Song =
  song_id :: string
  song_name :: string
  song_genre :: "string option"
  song_uri :: "string option"

definition row_get :: "pyval option \<Rightarrow> pyval \<Rightarrow> pyval" where
  \<comment> \<open>\<open>row.get(key, default)\<close>\<close>
  "row_get cell dflt = (case cell of None \<Rightarrow> dflt | Some v \<Rightarrow> v)"

text \<open>\<open>urllib.parse.quote_plus\<close>: the text is encoded as UTF-8 and every byte that is not
  an unreserved ASCII character becomes \<open>%XX\<close>; a space becomes \<open>+\<close>.\<close>

definition utf8 :: "char \<Rightarrow> nat list" where
  \<comment> \<open>the UTF-8 bytes of one code point below 256\<close>
  "utf8 c =
     (let n = (of_char c :: nat)
      in if n < 128 then [n] else [192 + n div 64, 128 + n mod 64])"

definition always_safe :: "char set" where
  "always_safe =
     set ''ABCDEFGHIJKLMNOPQRSTUVWXYZabcdefghijklmnopqrstuvwxyz0123456789_.-~''"

definition hex_digit :: "nat \<Rightarrow> char" where
  "hex_digit d = ''0123456789ABCDEF'' ! d"

definition quote_byte :: "string \<Rightarrow> nat \<Rightarrow> string" where
  "quote_byte safe b =
     (if b < 128 \<and> (char_of b \<in> always_safe \<or> char_of b \<in> set safe) then [char_of b]
      else [CHR ''%'', hex_digit (b div 16), hex_digit (b mod 16)])"

definition quote :: "string \<Rightarrow> string \<Rightarrow> string" where
  "quote s safe = concat (map (quote_byte safe) (concat (map utf8 s)))"

definition quote_plus :: "string \<Rightarrow> string" where
  "quote_plus s =
     (if CHR '' '' \<notin> set s then quote s []
      else map (\<lambda>c. if c = CHR '' '' then CHR ''+'' else c) (quote s '' ''))"

definition filter_df_for_mood :: "row list \<Rightarrow> string \<Rightarrow> row list" where
  \<comment> \<open>the module's dataframe \<open>_df\<close> is the parameter \<open>df\<close>\<close>
  "filter_df_for_mood df mood =
     (let mood_lower = lower mood
      in if mood_lower = ''happy'' then filter (\<lambda>r. valence r \<ge> 6 / 10) df
         else if mood_lower = ''sad'' then filter (\<lambda>r. valence r \<le> 4 / 10) df
         else if mood_lower = ''calm''
           then filter (\<lambda>r. acousticness r \<ge> 5 / 10 \<and> energy r \<le> 6 / 10) df
         else if mood_lower = ''angry'' then filter (\<lambda>r. energy r \<ge> 8 / 10) df
         else df)"

definition candidate_subset :: "row list \<Rightarrow> string \<Rightarrow> row list" where
  \<comment> \<open>lines 71-74 of \<open>recommend_songs_for_mood\<close>\<close>
  "candidate_subset df mood =
     (let subset_rows = filter_df_for_mood df mood
      in if subset_rows = [] then df else subset_rows)"

definition sample_positions :: "nat \<Rightarrow> nat list \<Rightarrow> nat list" where
  \<comment> \<open>the positions numpy's \<open>choice\<close> takes without replacement,
      \<open>permutation(pop_size)[:size]\<close>: the first \<open>n\<close> entries of \<open>perm\<close>, the permutation of
      the positions that the random generator produced\<close>
  "sample_positions n perm = take n perm"

definition sample :: "row list \<Rightarrow> int \<Rightarrow> nat list \<Rightarrow> exn + row list" where
  \<comment> \<open>\<open>subset.sample(n=n, random_state=None)\<close>: pandas refuses a negative \<open>n\<close>, numpy one
      beyond the number of rows; otherwise the rows at the sampled positions, in that order\<close>
  "sample subset_rows n perm =
     (if n < 0 then Inl (ValueError ''A negative number of rows requested. Please provide `n` >= 0.'')
      else if int (length subset_rows) < n
        then Inl (ValueError
               (''Cannot take a larger sample than population when 'replace=False'' @ [CHR 0x27]))
      else Inr (map (\<lambda>i. subset_rows ! i) (sample_positions (nat n) perm)))"

definition is_permutation :: "nat list \<Rightarrow> nat \<Rightarrow> bool" where
  \<comment> \<open>what numpy promises of \<open>permutation(len)\<close>: every position below \<open>len\<close>, once\<close>
  "is_permutation perm len =
     (length perm = len \<and> distinct perm \<and> list_all (\<lambda>i. i < len) perm)"

definition sampled_subset :: "row list \<Rightarrow> string \<Rightarrow> int \<Rightarrow> nat list \<Rightarrow> exn + row list" where
  \<comment> \<open>lines 71-77: the rows the loop runs over\<close>
  "sampled_subset df mood limit perm =
     (let subset_rows = candidate_subset df mood
      in if int (length subset_rows) > limit then sample subset_rows limit perm else Inr subset_rows)"

definition uri_text :: "row \<Rightarrow> string" where
  \<comment> \<open>lines 89-90: the first value of \<open>uri\<close>\<close>
  "uri_text r =
     (let raw_uri = row_get (r_uri r) PyNone
      in case raw_uri of PStr s \<Rightarrow> strip s | PObj t s \<Rightarrow> [])"

definition resolve_uri :: "row \<Rightarrow> string \<Rightarrow> string" where
  \<comment> \<open>lines 88-100, for a row whose trimmed name is \<open>name\<close>\<close>
  "resolve_uri r name =
     (let uri = uri_text r;
          uri = (if startswith uri ''spotify:track:''
                 then (let spotify_id = last (split uri ''spotify:track:'')
                       in ''https://open.spotify.com/track/'' @ spotify_id)
                 else uri)
      in if uri = [] \<or> \<not> (startswith uri ''http://'' \<or> startswith uri ''https://'')
         then (let search_query =
                     quote_plus (strip (name @ '' '' @ py_str (row_get (r_artist r) (PStr []))))
               in ''https://www.youtube.com/results?search_query='' @ search_query)
         else uri)"

definition display_name :: "row \<Rightarrow> string" where
  \<comment> \<open>lines 81-82: \<open>name\<close>\<close>
  "display_name r =
     (let raw_name = py_or (py_or (row_get (r_song_name r) PyNone) (row_get (r_title r) PyNone))
                       (PStr [])
      in strip (py_str raw_name))"

definition song_of_row :: "row \<Rightarrow> Song option" where
  \<comment> \<open>one pass of the loop body, lines 81-112; \<open>None\<close> is the \<open>continue\<close>\<close>
  "song_of_row r =
     (let name = display_name r
      in if name = [] then None
         else
           (let sid = py_str (py_or (row_get (r_id r) PyNone) (PStr []));
                uri = resolve_uri r name;
                raw_genre = row_get (r_genre r) PyNone;
                genre = (case raw_genre of PStr s \<Rightarrow> Some (strip s) | PObj t s \<Rightarrow> None)
            in Some \<lparr> song_id = sid, song_name = name,
                      song_genre = (if genre = Some [] then None else genre),
                      song_uri = (if uri = [] then None else Some uri) \<rparr>))"

fun build_songs :: "row list \<Rightarrow> Song list" where
  \<comment> \<open>the loop of lines 79-112 over the rows of \<open>subset\<close>, in order\<close>
  "build_songs [] = []"
| "build_songs (r # rs) =
     (case song_of_row r of None \<Rightarrow> build_songs rs | Some s \<Rightarrow> s # build_songs rs)"

definition recommend_songs_for_mood ::
  "row list \<Rightarrow> string \<Rightarrow> int \<Rightarrow> nat list \<Rightarrow> exn + Song list" where
  "recommend_songs_for_mood df mood limit perm =
     (case sampled_subset df mood limit perm of
        Inl e \<Rightarrow> Inl e
      | Inr subset_rows \<Rightarrow> Inr (build_songs subset_rows))"

section \<open>services/mood\_service.py\<close>

text \<open>
  A grayscale image is the list of its pixel rows (\<open>gray.shape\<close> is the number of rows
  and the length of a row). OpenCV, the weight file and the network are outside the
  repository: what they return is read from an environment \<open>env\<close>, which may differ
  from one request to the next.
\<close>

type_synonym gray_image = "8 word list list"
type_synonym bgr_image = "(8 word \<times> 8 word \<times> 8 word) list list"
type_synonym face = "nat \<times> nat \<times> nat \<times> nat"

datatype layer =
    Conv2D nat "nat \<times> nat" string
  | MaxPooling2D "nat \<times> nat"
  | Dropout rat
  | Flatten
  | Dense nat string

record Sequential =
  layers :: "layer list"
  weights :: "8 word list option"

record env =
  imdecode :: "8 word list \<Rightarrow> bgr_image option"
  cvtColor :: "bgr_image \<Rightarrow> gray_image"
  detectMultiScale :: "gray_image \<Rightarrow> face list"
  resize :: "gray_image \<Rightarrow> exn + gray_image"
  weights_path :: string
  weights_file :: "(exn + 8 word list) option"
  predict :: "Sequential \<Rightarrow> gray_image \<Rightarrow> exn + rat list"

text \<open>
  \<open>weights_file\<close> is \<open>None\<close> when \<open>WEIGHTS_PATH\<close> does not exist; otherwise it holds what
  \<open>load_weights\<close> does with the file: the weights, or the exception it raises.
  The module's global \<open>_model\<close> is the state.
\<close>

record state =
  model :: "Sequential option"

definition EMOTION_DICT :: "nat \<rightharpoonup> string" where
  "EMOTION_DICT = [0 \<mapsto> ''Angry'', 1 \<mapsto> ''Sad'', 2 \<mapsto> ''Happy'', 3 \<mapsto> ''Calm'']"

definition dict_get :: "('k \<rightharpoonup> 'v) \<Rightarrow> 'k \<Rightarrow> 'v \<Rightarrow> 'v" where
  \<comment> \<open>\<open>d.get(k, default)\<close>\<close>
  "dict_get d k dflt = (case d k of None \<Rightarrow> dflt | Some v \<Rightarrow> v)"

definition architecture :: "layer list" where
  \<comment> \<open>the layers \<open>_build_model\<close> adds, in order (the first takes a 48x48x1 input)\<close>
  "architecture =
     [Conv2D 32 (3, 3) ''relu'', Conv2D 64 (3, 3) ''relu'', MaxPooling2D (2, 2),
      Dropout (1 / 4),
      Conv2D 128 (3, 3) ''relu'', MaxPooling2D (2, 2),
      Conv2D 128 (3, 3) ''relu'', MaxPooling2D (2, 2), Dropout (1 / 4),
      Flatten, Dense 1024 ''relu'', Dropout (1 / 2), Dense 4 ''softmax'']"

definition build_model :: "env \<Rightarrow> exn + Sequential" where
  "build_model e =
     (case weights_file e of
        None \<Rightarrow>
          Inl (FileNotFoundError
            (''Emotion model weights not found at '' @ weights_path e @ ''. ''
             @ ''Make sure the 'Mood-Based-Song-Recommender-main' project (with the ''
             @ '''Model/model_weights_training_optimal.h5' file) exists under the ''
             @ ''project root (EDI@).''))
      | Some (Inl x) \<Rightarrow> Inl x
      | Some (Inr w) \<Rightarrow> Inr \<lparr> layers = architecture, weights = Some w \<rparr>)"

definition get_model :: "env \<Rightarrow> state \<Rightarrow> (exn + Sequential) \<times> state" where
  \<comment> \<open>when \<open>_build_model\<close> raises, the assignment to \<open>_model\<close> does not happen\<close>
  "get_model e st =
     (case model st of
        None \<Rightarrow>
          (case build_model e of
             Inl x \<Rightarrow> (Inl x, st)
           | Inr m \<Rightarrow> (Inr m, st\<lparr>model := Some m\<rparr>))
      | Some m \<Rightarrow> (Inr m, st))"

definition slice :: "'a list \<Rightarrow> nat \<Rightarrow> nat \<Rightarrow> 'a list" where
  \<comment> \<open>\<open>xs[a:b]\<close> for \<open>0 \<le> a\<close>; an end beyond the list is cut off\<close>
  "slice xs a b = take (b - a) (drop a xs)"

definition crop :: "gray_image \<Rightarrow> nat \<Rightarrow> nat \<Rightarrow> nat \<Rightarrow> nat \<Rightarrow> gray_image" where
  \<comment> \<open>\<open>gray[y0:y1, x0:x1]\<close>\<close>
  "crop gray y0 y1 x0 x1 = map (\<lambda>r. slice r x0 x1) (slice gray y0 y1)"

definition shape :: "gray_image \<Rightarrow> nat \<times> nat" where
  "shape gray = (length gray, (case gray of [] \<Rightarrow> 0 | r # _ \<Rightarrow> length r))"

definition extract_roi :: "gray_image \<Rightarrow> face list \<Rightarrow> gray_image" where
  \<comment> \<open>lines 99-108 of \<open>predict_mood_from_image_bytes\<close>\<close>
  "extract_roi gray faces =
     (case faces of
        [] \<Rightarrow>
          (let (h, w) = shape gray;
               size = min h w;
               y0 = (h - size) div 2;
               x0 = (w - size) div 2
           in crop gray y0 (y0 + size) x0 (x0 + size))
      | (x, y, w, h) # _ \<Rightarrow> crop gray y (y + h) x (x + w))"

fun argmax_from :: "nat \<Rightarrow> rat \<Rightarrow> nat \<Rightarrow> rat list \<Rightarrow> nat" where
  \<comment> \<open>the scan of \<open>np.argmax\<close>: \<open>best\<close> is the position of the largest value \<open>bv\<close> so
      far, replaced only by a strictly larger one\<close>
  "argmax_from best bv i [] = best"
| "argmax_from best bv i (v # vs) =
     (if bv < v then argmax_from i v (Suc i) vs else argmax_from best bv (Suc i) vs)"

definition argmax :: "rat list \<Rightarrow> exn + nat" where
  "argmax p =
     (case p of
        [] \<Rightarrow> Inl (ValueError ''attempt to get argmax of an empty sequence'')
      | v # vs \<Rightarrow> Inr (argmax_from 0 v 1 vs))"

definition predict_mood_from_image_bytes ::
  "env \<Rightarrow> state \<Rightarrow> 8 word list \<Rightarrow> (exn + string) \<times> state" where
  "predict_mood_from_image_bytes e st image_bytes =
     (if image_bytes = [] then (Inl (ValueError ''Empty image bytes.''), st)
      else case imdecode e image_bytes of
        None \<Rightarrow> (Inl (ValueError ''Could not decode image data.''), st)
      | Some frame \<Rightarrow>
          (let gray = cvtColor e frame;
               faces = detectMultiScale e gray;
               roi_gray = extract_roi gray faces
           in case resize e roi_gray of
                Inl x \<Rightarrow> (Inl x, st)
              | Inr cropped_img \<Rightarrow>
                  (case get_model e st of
                     (Inl x, st') \<Rightarrow> (Inl x, st')
                   | (Inr m, st') \<Rightarrow>
                       (case predict e m cropped_img of
                          Inl x \<Rightarrow> (Inl x, st')
                        | Inr prediction \<Rightarrow>
                            (case argmax prediction of
                               Inl x \<Rightarrow> (Inl x, st')
                             | Inr maxindex \<Rightarrow>
                                 (Inr (dict_get EMOTION_DICT maxindex ''Calm''), st'))))))"

section \<open>routers/mood.py\<close>

record HTTPException =
  status_code :: nat
  detail :: string

datatype response =
    Raised HTTPException
  | Unhandled exn
  | Created string "Song list"

definition detect_mood ::
  "env \<Rightarrow> row list \<Rightarrow> nat list \<Rightarrow> state \<Rightarrow> 8 word list \<Rightarrow> response \<times> state" where
  \<comment> \<open>lines 51-67; the stored document and the returned event (lines 69-80) hold the
      mood label and the songs computed here\<close>
  "detect_mood e df perm st data =
     (if data = [] then
        (Raised \<lparr> status_code = 400, detail = ''Uploaded image is empty.'' \<rparr>, st)
      else case predict_mood_from_image_bytes e st data of
        (Inl exc, st') \<Rightarrow>
          (Raised \<lparr> status_code = 500,
                     detail = ''Failed to analyze image: '' @ exn_str exc \<rparr>, st')
      | (Inr mood_label, st') \<Rightarrow>
          (case recommend_songs_for_mood df mood_label 10 perm of
             Inl exc \<Rightarrow> (Unhandled exc, st')
           | Inr songs_models \<Rightarrow> (Created mood_label songs_models, st')))"

section \<open>Case-insensitive labels\<close>

text \<open>
  Two characters are the same letter when they are equal or when one is an ASCII capital
  and the other the small letter 32 code points above it; two texts match when they have
  the same length and the same letter at every position.
\<close>

definition is_upper :: "char \<Rightarrow> bool" where
  "is_upper c = (65 \<le> (of_char c :: nat) \<and> (of_char c :: nat) \<le> 90)"

definition same_letter :: "char \<Rightarrow> char \<Rightarrow> bool" where
  "same_letter a b =
     (a = b \<or> (is_upper a \<and> (of_char b :: nat) = of_char a + 32)
            \<or> (is_upper b \<and> (of_char a :: nat) = of_char b + 32))"

definition ci_equal :: "string \<Rightarrow> string \<Rightarrow> bool" where
  "ci_equal s t = list_all2 same_letter s t"

definition is_ascii_letter :: "char \<Rightarrow> bool" where
  "is_ascii_letter c =
     (let n = (of_char c :: nat) in (65 \<le> n \<and> n \<le> 90) \<or> (97 \<le> n \<and> n \<le> 122))"

definition lower_code :: "nat \<Rightarrow> nat" where
  "lower_code n =
     (if (65 \<le> n \<and> n \<le> 90) \<or> (192 \<le> n \<and> n \<le> 222 \<and> n \<noteq> 215) then n + 32 else n)"

section \<open>Example data\<close>

definition row_sunny :: row where
  "row_sunny =
     \<lparr> r_id = Some (PStr ''s1''), r_song_name = Some (PStr ''Sunny Day''), r_title = None,
       r_genre = Some (PStr ''pop''), r_artist = Some (PStr ''Test Artist''),
       r_uri = Some PyNaN, valence = 7 / 10, energy = 9 / 10, acousticness = 1 / 10 \<rparr>"

definition row_rain :: row where
  "row_rain =
     \<lparr> r_id = Some (PStr ''s2''), r_song_name = Some (PStr ''Rain''), r_title = None,
       r_genre = Some PyNaN, r_artist = Some PyNaN,
       r_uri = Some (PStr ''spotify:track:ABC123''),
       valence = 2 / 10, energy = 3 / 10, acousticness = 8 / 10 \<rparr>"

definition row_blank :: row where
  \<comment> \<open>a happy row whose name is only blanks\<close>
  "row_blank =
     \<lparr> r_id = Some (PStr ''s3''), r_song_name = Some (PStr ''   ''), r_title = None,
       r_genre = Some (PStr ''rock''), r_artist = Some (PStr ''Nobody''),
       r_uri = Some PyNaN, valence = 9 / 10, energy = 5 / 10, acousticness = 2 / 10 \<rparr>"

definition row_web :: row where
  \<comment> \<open>a happy row whose link is a web address followed by a blank\<close>
  "row_web =
     \<lparr> r_id = Some (PStr ''s4''), r_song_name = Some (PStr ''Web Song''), r_title = None,
       r_genre = Some (PStr ''pop''), r_artist = Some (PStr ''Someone''),
       r_uri = Some (PStr ''https://example.com/a ''),
       valence = 8 / 10, energy = 5 / 10, acousticness = 2 / 10 \<rparr>"

definition df_example :: "row list" where
  "df_example = [row_sunny, row_web, row_blank, row_rain]"

definition song_sunny :: Song where
  "song_sunny =
     \<lparr> song_id = ''s1'', song_name = ''Sunny Day'', song_genre = Some ''pop'',
       song_uri = Some ''https://www.youtube.com/results?search_query=Sunny+Day+Test+Artist'' \<rparr>"

definition song_rain :: Song where
  "song_rain =
     \<lparr> song_id = ''s2'', song_name = ''Rain'', song_genre = None,
       song_uri = Some ''https://open.spotify.com/track/ABC123'' \<rparr>"

definition song_web :: Song where
  "song_web =
     \<lparr> song_id = ''s4'', song_name = ''Web Song'', song_genre = Some ''pop'',
       song_uri = Some ''https://example.com/a'' \<rparr>"

definition env_ok :: env where
  \<comment> \<open>a one-pixel picture, no face found, the weight file present, and a prediction whose
      two largest values are equal\<close>
  "env_ok =
     \<lparr> imdecode = (\<lambda>bs. Some [[(0, 0, 0)]]),
       cvtColor = map (map (\<lambda>(b, g, r). g)),
       detectMultiScale = (\<lambda>g. []),
       resize = Inr,
       weights_path = ''/srv/Model/model_weights_training_optimal.h5'',
       weights_file = Some (Inr [1, 2, 3]),
       predict = (\<lambda>m g. Inr [1 / 10, 2 / 5, 2 / 5, 1 / 10]) \<rparr>"

definition env_missing :: env where
  \<comment> \<open>the same, without the weight file\<close>
  "env_missing = env_ok\<lparr> weights_file := None \<rparr>"

definition env_oom :: env where
  \<comment> \<open>the same, with a network that fails while predicting\<close>
  "env_oom = env_ok\<lparr> predict := (\<lambda>m g. Inl (LibraryError ''OOM when allocating tensor'')) \<rparr>"

definition env_undecodable :: env where
  "env_undecodable = env_ok\<lparr> imdecode := (\<lambda>bs. None) \<rparr>"

definition st0 :: state where
  \<comment> \<open>the state of a fresh process: \<open>_model = None\<close>\<close>
  "st0 = \<lparr> model = None \<rparr>"

definition gray_200x100 :: gray_image where
  \<comment> \<open>100 rows of 200 pixels; the pixel in column \<open>x\<close> has the value \<open>x\<close>\<close>
  "gray_200x100 = replicate 100 (map of_nat [0..<200])"

section \<open>Properties of the label filter\<close>

lemma of_char_lower_char: "(of_char (lower_char c) :: nat) = lower_code (of_char c)"
  by (simp add: lower_char_def lower_code_def Let_def)

lemma lower_char_eq_iff:
  "lower_char a = lower_char b \<longleftrightarrow> lower_code (of_char a) = lower_code (of_char b)"
proof -
  have "lower_char a = lower_char b \<longleftrightarrow>
        (of_char (lower_char a) :: nat) = of_char (lower_char b)"
    by simp
  then show ?thesis
    by (simp only: of_char_lower_char)
qed

lemma same_letter_iff_lower:
  assumes "is_ascii_letter l"
  shows "same_letter c l \<longleftrightarrow> lower_char c = lower_char l"
proof -
  have eq: "c = l \<longleftrightarrow> (of_char c :: nat) = of_char l"
    by simp
  show ?thesis
    using assms
    unfolding lower_char_eq_iff same_letter_def is_upper_def is_ascii_letter_def
      lower_code_def Let_def eq
    by (auto split: if_splits)
qed

lemma ci_equal_iff_lower:
  assumes "list_all is_ascii_letter t"
  shows "ci_equal s t \<longleftrightarrow> lower s = lower t"
  using assms
proof (induction t arbitrary: s)
  case Nil
  then show ?case by (simp add: ci_equal_def lower_def)
next
  case (Cons l t)
  show ?case
  proof (cases s)
    case Nil
    then show ?thesis by (simp add: ci_equal_def lower_def)
  next
    case (Cons c s')
    have "ci_equal s' t \<longleftrightarrow> lower s' = lower t"
      using Cons.IH Cons.prems by simp
    moreover have "same_letter c l \<longleftrightarrow> lower_char c = lower_char l"
      using Cons.prems by (simp add: same_letter_iff_lower)
    ultimately show ?thesis
      using Cons by (simp add: ci_equal_def lower_def)
  qed
qed

lemma lower_Happy: "lower mood = ''happy'' \<longleftrightarrow> ci_equal mood ''Happy''"
proof -
  have "lower ''Happy'' = ''happy''"
    by code_simp
  moreover have "list_all is_ascii_letter ''Happy''"
    by (simp add: is_ascii_letter_def)
  ultimately show ?thesis
    by (simp only: ci_equal_iff_lower)
qed

lemma lower_Sad: "lower mood = ''sad'' \<longleftrightarrow> ci_equal mood ''Sad''"
proof -
  have "lower ''Sad'' = ''sad''"
    by code_simp
  moreover have "list_all is_ascii_letter ''Sad''"
    by (simp add: is_ascii_letter_def)
  ultimately show ?thesis
    by (simp only: ci_equal_iff_lower)
qed

lemma lower_Calm: "lower mood = ''calm'' \<longleftrightarrow> ci_equal mood ''Calm''"
proof -
  have "lower ''Calm'' = ''calm''"
    by code_simp
  moreover have "list_all is_ascii_letter ''Calm''"
    by (simp add: is_ascii_letter_def)
  ultimately show ?thesis
    by (simp only: ci_equal_iff_lower)
qed

lemma lower_Angry: "lower mood = ''angry'' \<longleftrightarrow> ci_equal mood ''Angry''"
proof -
  have "lower ''Angry'' = ''angry''"
    by code_simp
  moreover have "list_all is_ascii_letter ''Angry''"
    by (simp add: is_ascii_letter_def)
  ultimately show ?thesis
    by (simp only: ci_equal_iff_lower)
qed

text \<open>
  C1. Whatever the mood text, the filter keeps, under case-insensitive matching of the
  label: for Happy exactly the rows with valence at least 0.6, for Sad the rows with
  valence at most 0.4, for Calm the rows with acousticness at least 0.5 and energy at most
  0.6, for Angry the rows with energy at least 0.8, and for every other text the whole
  dataset.
\<close>

theorem filter_df_for_mood_thresholds:
  "filter_df_for_mood df mood =
     (if ci_equal mood ''Happy'' then filter (\<lambda>r. valence r \<ge> 6 / 10) df
      else if ci_equal mood ''Sad'' then filter (\<lambda>r. valence r \<le> 4 / 10) df
      else if ci_equal mood ''Calm''
        then filter (\<lambda>r. acousticness r \<ge> 5 / 10 \<and> energy r \<le> 6 / 10) df
      else if ci_equal mood ''Angry'' then filter (\<lambda>r. energy r \<ge> 8 / 10) df
      else df)"
  unfolding filter_df_for_mood_def Let_def lower_Happy lower_Sad lower_Calm lower_Angry
  by (rule refl)

theorem filter_df_for_mood_thresholds_witness:
  "filter_df_for_mood [row_sunny, row_rain] ''hApPy'' = [row_sunny]
   \<and> filter_df_for_mood [row_sunny, row_rain] ''SAD'' = [row_rain]
   \<and> filter_df_for_mood [row_sunny, row_rain] ''calm'' = [row_rain]
   \<and> filter_df_for_mood [row_sunny, row_rain] ''Angry'' = [row_sunny]
   \<and> filter_df_for_mood [row_sunny, row_rain] ''Tired'' = [row_sunny, row_rain]"
  using filter_df_for_mood_thresholds [of "[row_sunny, row_rain]" "''hApPy''"]
    filter_df_for_mood_thresholds [of "[row_sunny, row_rain]" "''SAD''"]
    filter_df_for_mood_thresholds [of "[row_sunny, row_rain]" "''calm''"]
    filter_df_for_mood_thresholds [of "[row_sunny, row_rain]" "''Angry''"]
    filter_df_for_mood_thresholds [of "[row_sunny, row_rain]" "''Tired''"]
  by (simp add: ci_equal_def same_letter_def is_upper_def row_sunny_def row_rain_def)

section \<open>Properties of the recommender\<close>

lemma length_filter_df_for_mood: "length (filter_df_for_mood df mood) \<le> length df"
  by (simp add: filter_df_for_mood_def Let_def)

lemma length_candidate_subset: "length (candidate_subset df mood) \<le> length df"
  by (simp add: candidate_subset_def Let_def length_filter_df_for_mood)

text \<open>
  C6. When the filter leaves no row, the candidates are the whole dataset; so a dataset
  with at least one row never gives an empty set of candidates.
\<close>

theorem candidate_subset_fallback:
  "(filter_df_for_mood df mood = [] \<longrightarrow> candidate_subset df mood = df)
   \<and> (filter_df_for_mood df mood \<noteq> [] \<longrightarrow>
        candidate_subset df mood = filter_df_for_mood df mood)
   \<and> (df \<noteq> [] \<longrightarrow> candidate_subset df mood \<noteq> [])"
  by (auto simp add: candidate_subset_def Let_def)

theorem candidate_subset_fallback_witness:
  "filter_df_for_mood [row_rain] ''Happy'' = []
   \<and> candidate_subset [row_rain] ''Happy'' = [row_rain]
   \<and> filter_df_for_mood [row_sunny, row_rain] ''Happy'' \<noteq> []
   \<and> candidate_subset [row_sunny, row_rain] ''Happy'' = [row_sunny]"
proof -
  have empty: "filter_df_for_mood [row_rain] ''Happy'' = []"
    by code_simp
  have one: "filter_df_for_mood [row_sunny, row_rain] ''Happy'' = [row_sunny]"
    by code_simp
  show ?thesis
    using candidate_subset_fallback [of "[row_rain]" "''Happy''"]
      candidate_subset_fallback [of "[row_sunny, row_rain]" "''Happy''"] empty one
    by simp
qed

lemma song_of_row_None_iff: "song_of_row r = None \<longleftrightarrow> display_name r = []"
  by (simp add: song_of_row_def Let_def)

lemma song_of_row_name: "song_of_row r = Some s \<Longrightarrow> song_name s = display_name r"
  by (auto simp add: song_of_row_def Let_def split: if_splits)

lemma length_build_songs: "length (build_songs rows) \<le> length rows"
  by (induction rows) (auto split: option.splits)

lemma build_songs_Cons_blank: "display_name r = [] \<Longrightarrow> build_songs (r # rows) = build_songs rows"
  by (simp add: song_of_row_None_iff [symmetric])

lemma build_songs_Cons_named:
  "display_name r \<noteq> [] \<Longrightarrow> \<exists>s. song_of_row r = Some s \<and> build_songs (r # rows) = s # build_songs rows"
  by (cases "song_of_row r") (simp_all add: song_of_row_None_iff)

lemma length_build_songs_filter:
  "length (build_songs rows) = length (filter (\<lambda>r. display_name r \<noteq> []) rows)"
proof (induction rows)
  case Nil
  show ?case by simp
next
  case (Cons r rows)
  show ?case
  proof (cases "display_name r = []")
    case True
    have "build_songs (r # rows) = build_songs rows"
      using True by (rule build_songs_Cons_blank)
    then show ?thesis
      using Cons.IH True by (simp del: build_songs.simps)
  next
    case False
    obtain s where "build_songs (r # rows) = s # build_songs rows"
      using build_songs_Cons_named [OF False, of rows] by blast
    then show ?thesis
      using Cons.IH False by (simp del: build_songs.simps)
  qed
qed

lemma names_build_songs:
  "map song_name (build_songs rows) = map display_name (filter (\<lambda>r. display_name r \<noteq> []) rows)"
proof (induction rows)
  case Nil
  show ?case by simp
next
  case (Cons r rows)
  show ?case
  proof (cases "display_name r = []")
    case True
    have "build_songs (r # rows) = build_songs rows"
      using True by (rule build_songs_Cons_blank)
    then show ?thesis
      using Cons.IH True by (simp del: build_songs.simps)
  next
    case False
    obtain s where s: "song_of_row r = Some s" "build_songs (r # rows) = s # build_songs rows"
      using build_songs_Cons_named [OF False, of rows] by blast
    then show ?thesis
      using Cons.IH False song_of_row_name [OF s(1)] by (simp del: build_songs.simps)
  qed
qed

lemma build_songs_all_blank:
  "(\<forall>r \<in> set rows. display_name r = []) \<Longrightarrow> build_songs rows = []"
  by (induction rows) (auto simp add: song_of_row_None_iff split: option.splits)

lemma length_sample_positions: "length (sample_positions n perm) \<le> n"
  by (simp add: sample_positions_def)

lemma sample_positions_of_permutation:
  assumes "is_permutation perm len" and "n \<le> len"
  shows "length (sample_positions n perm) = n \<and> distinct (sample_positions n perm)
         \<and> (\<forall>i \<in> set (sample_positions n perm). i < len)"
proof -
  have "set (take n perm) \<subseteq> set perm"
    by (rule set_take_subset)
  then show ?thesis
    using assms by (auto simp add: is_permutation_def sample_positions_def list_all_iff)
qed

lemma sample_positions_uniform:
  assumes "n \<le> len" and "length ps = n" and "distinct ps" and "set ps \<subseteq> {..<len}"
  shows "card {p. is_permutation p len \<and> sample_positions n p = ps} = fact (len - n)"
proof -
  let ?A = "{..<len} - set ps"
  let ?S = "{q. length q = len - n \<and> distinct q \<and> set q \<subseteq> ?A}"
  have cardA: "card ?A = len - n"
    using assms(2-4) by (simp add: card_Diff_subset distinct_card)
  have "{p. is_permutation p len \<and> sample_positions n p = ps} = (\<lambda>q. ps @ q) ` ?S"
  proof (intro set_eqI iffI)
    fix p
    assume "p \<in> {p. is_permutation p len \<and> sample_positions n p = ps}"
    then have p: "length p = len" "distinct p" "set p \<subseteq> {..<len}" "take n p = ps"
      by (auto simp add: is_permutation_def sample_positions_def list_all_iff)
    have split: "p = ps @ drop n p"
      using p(4) append_take_drop_id [of n p] by simp
    have "distinct (ps @ drop n p)" and "set (ps @ drop n p) \<subseteq> {..<len}"
      using p(2,3) split by simp_all
    then have "drop n p \<in> ?S"
      using p(1) by auto
    then show "p \<in> (\<lambda>q. ps @ q) ` ?S"
      using split by blast
  next
    fix p
    assume "p \<in> (\<lambda>q. ps @ q) ` ?S"
    then obtain q where q: "p = ps @ q" "length q = len - n" "distinct q" "set q \<subseteq> ?A"
      by blast
    have "length p = len"
      using q(1,2) assms(1,2) by simp
    moreover have "distinct p"
      using q(1,3,4) assms(3) by auto
    moreover have "set p \<subseteq> {..<len}"
      using q(1,4) assms(4) by auto
    moreover have "take n p = ps"
      using q(1) assms(2) by simp
    ultimately show "p \<in> {p. is_permutation p len \<and> sample_positions n p = ps}"
      by (auto simp add: is_permutation_def sample_positions_def list_all_iff)
  qed
  moreover have "card ((\<lambda>q. ps @ q) ` ?S) = card ?S"
    by (rule card_image) (simp add: inj_on_def)
  moreover have "card ?S = \<Prod>{card ?A - (len - n) + 1 .. card ?A}"
    by (rule card_lists_distinct_length_eq) (simp_all add: cardA)
  moreover have "\<Prod>{card ?A - (len - n) + 1 .. card ?A} = (fact (len - n) :: nat)"
    by (simp add: cardA fact_prod)
  ultimately show ?thesis
    by simp
qed

lemma sampled_subset_sampling:
  assumes "0 \<le> limit" and "limit < int (length (candidate_subset df mood))"
  shows "sampled_subset df mood limit perm
           = Inr (map (\<lambda>i. candidate_subset df mood ! i) (sample_positions (nat limit) perm))"
  using assms by (simp add: sampled_subset_def sample_def Let_def)

text \<open>
  C5. For a limit that is not negative, the call returns a list of at most \<open>limit\<close>
  descriptors and of at most as many descriptors as the dataset has rows, whatever the
  random generator produced. When there are more candidates than \<open>limit\<close>, the loop runs
  over the rows at the first \<open>limit\<close> positions of the generator's permutation of the
  candidates' positions: for a permutation these are exactly \<open>limit\<close> positions, no
  position twice. The sample is uniform: each of the possible selections of \<open>limit\<close>
  distinct positions, in each order, is what the code samples for the same number of
  permutations, the factorial of the number of candidates left out. With no more
  candidates than \<open>limit\<close> the loop runs over all of them. For a negative limit the
  sampler refuses, and nothing is returned.
\<close>

theorem recommend_songs_for_mood_at_most_limit:
  "(0 \<le> limit \<longrightarrow>
      (\<exists>songs. recommend_songs_for_mood df mood limit perm = Inr songs
         \<and> int (length songs) \<le> limit \<and> length songs \<le> length df))
   \<and> (0 \<le> limit \<and> limit < int (length (candidate_subset df mood)) \<longrightarrow>
        sampled_subset df mood limit perm
          = Inr (map (\<lambda>i. candidate_subset df mood ! i) (sample_positions (nat limit) perm)))
   \<and> (0 \<le> limit \<and> limit < int (length (candidate_subset df mood))
        \<and> is_permutation perm (length (candidate_subset df mood)) \<longrightarrow>
        int (length (sample_positions (nat limit) perm)) = limit
        \<and> distinct (sample_positions (nat limit) perm)
        \<and> (\<forall>i \<in> set (sample_positions (nat limit) perm).
              i < length (candidate_subset df mood)))
   \<and> (0 \<le> limit \<and> limit < int (length (candidate_subset df mood)) \<longrightarrow>
        (\<forall>ps. length ps = nat limit \<and> distinct ps
                \<and> set ps \<subseteq> {..<length (candidate_subset df mood)} \<longrightarrow>
           card {p. is_permutation p (length (candidate_subset df mood))
                    \<and> sampled_subset df mood limit p
                        = Inr (map (\<lambda>i. candidate_subset df mood ! i) ps)
                    \<and> sample_positions (nat limit) p = ps}
             = fact (length (candidate_subset df mood) - nat limit)))
   \<and> (int (length (candidate_subset df mood)) \<le> limit \<longrightarrow>
        sampled_subset df mood limit perm = Inr (candidate_subset df mood))
   \<and> (limit < 0 \<longrightarrow> (\<exists>m. recommend_songs_for_mood df mood limit perm = Inl (ValueError m)))"
proof -
  let ?cand = "candidate_subset df mood"
  have ret: "\<exists>songs. recommend_songs_for_mood df mood limit perm = Inr songs
          \<and> int (length songs) \<le> limit \<and> length songs \<le> length df"
    if nonneg: "0 \<le> limit"
  proof (cases "limit < int (length ?cand)")
    case True
    let ?rows = "map (\<lambda>i. ?cand ! i) (sample_positions (nat limit) perm)"
    have r: "recommend_songs_for_mood df mood limit perm = Inr (build_songs ?rows)"
      using sampled_subset_sampling [OF nonneg True, of perm]
      by (simp add: recommend_songs_for_mood_def)
    have "length ?rows \<le> nat limit"
      using length_sample_positions [of "nat limit" perm] by simp
    then have "length (build_songs ?rows) \<le> nat limit"
      using length_build_songs [of ?rows] by linarith
    moreover have "nat limit \<le> length df"
      using True length_candidate_subset [of df mood] by linarith
    ultimately show ?thesis
      using r nonneg by auto
  next
    case False
    have r: "recommend_songs_for_mood df mood limit perm = Inr (build_songs ?cand)"
      using False
      by (simp add: recommend_songs_for_mood_def sampled_subset_def Let_def)
    have "length (build_songs ?cand) \<le> length ?cand"
      by (rule length_build_songs)
    then show ?thesis
      using r False length_candidate_subset [of df mood] by auto
  qed
  have sampled: "sampled_subset df mood limit perm
                   = Inr (map (\<lambda>i. ?cand ! i) (sample_positions (nat limit) perm))"
    if "0 \<le> limit \<and> limit < int (length ?cand)"
    using that sampled_subset_sampling by blast
  have exact: "int (length (sample_positions (nat limit) perm)) = limit
        \<and> distinct (sample_positions (nat limit) perm)
        \<and> (\<forall>i \<in> set (sample_positions (nat limit) perm). i < length ?cand)"
    if a: "0 \<le> limit \<and> limit < int (length ?cand) \<and> is_permutation perm (length ?cand)"
  proof -
    have "nat limit \<le> length ?cand"
      using a by linarith
    then show ?thesis
      using sample_positions_of_permutation [of perm "length ?cand" "nat limit"] a by simp
  qed
  have uniform: "card {p. is_permutation p (length ?cand)
                    \<and> sampled_subset df mood limit p = Inr (map (\<lambda>i. ?cand ! i) ps)
                    \<and> sample_positions (nat limit) p = ps}
             = fact (length ?cand - nat limit)"
    if a: "0 \<le> limit \<and> limit < int (length ?cand)"
      and ps: "length ps = nat limit \<and> distinct ps \<and> set ps \<subseteq> {..<length ?cand}"
    for ps
  proof -
    have le: "nat limit \<le> length ?cand"
      using a by linarith
    have "{p. is_permutation p (length ?cand)
              \<and> sampled_subset df mood limit p = Inr (map (\<lambda>i. ?cand ! i) ps)
              \<and> sample_positions (nat limit) p = ps}
          = {p. is_permutation p (length ?cand) \<and> sample_positions (nat limit) p = ps}"
      using a sampled_subset_sampling [of limit df mood] by auto
    then show ?thesis
      using sample_positions_uniform [OF le, of ps] ps by simp
  qed
  have whole: "sampled_subset df mood limit perm = Inr ?cand"
    if "int (length ?cand) \<le> limit"
    using that by (simp add: sampled_subset_def Let_def)
  have refused: "\<exists>m. recommend_songs_for_mood df mood limit perm = Inl (ValueError m)"
    if "limit < 0"
    using that
    by (simp add: recommend_songs_for_mood_def sampled_subset_def sample_def Let_def)
  show ?thesis
    using ret sampled exact uniform whole refused by blast
qed

lemma example_candidates: "candidate_subset df_example ''Happy'' = [row_sunny, row_web, row_blank]"
  by code_simp

theorem recommend_songs_for_mood_at_most_limit_witness:
  "is_permutation [2, 0, 1] (length (candidate_subset df_example ''Happy''))
   \<and> (\<exists>songs. recommend_songs_for_mood df_example ''Happy'' 2 [2, 0, 1] = Inr songs
         \<and> int (length songs) \<le> 2 \<and> length songs \<le> length df_example)
   \<and> sampled_subset df_example ''Happy'' 2 [2, 0, 1] = Inr [row_blank, row_sunny]
   \<and> sample_positions 2 [2, 0, 1] = [2, 0]
   \<and> card {p. is_permutation p 3
              \<and> sampled_subset df_example ''Happy'' 2 p = Inr [row_blank, row_sunny]
              \<and> sample_positions 2 p = [2, 0]} = 1"
proof -
  note c = example_candidates
  have v: "is_permutation [2, 0, 1] (length (candidate_subset df_example ''Happy''))"
    by (simp add: c is_permutation_def)
  have s: "sample_positions 2 [2, 0, 1] = [2, 0]"
    by (simp add: sample_positions_def)
  have ps: "length [2, 0 :: nat] = nat 2 \<and> distinct [2, 0 :: nat]
            \<and> set [2, 0] \<subseteq> {..<length (candidate_subset df_example ''Happy'')}"
    by (simp add: c)
  have lim: "(0::int) \<le> 2 \<and> 2 < int (length (candidate_subset df_example ''Happy''))"
    by (simp add: c)
  note T = recommend_songs_for_mood_at_most_limit [of 2 df_example "''Happy''" "[2, 0, 1]"]
  have ret: "\<exists>songs. recommend_songs_for_mood df_example ''Happy'' 2 [2, 0, 1] = Inr songs
         \<and> int (length songs) \<le> 2 \<and> length songs \<le> length df_example"
    using T by simp
  have smp: "sampled_subset df_example ''Happy'' 2 [2, 0, 1]
          = Inr (map (\<lambda>i. candidate_subset df_example ''Happy'' ! i)
                   (sample_positions (nat 2) [2, 0, 1]))"
    using T lim by blast
  have crd: "card {p. is_permutation p (length (candidate_subset df_example ''Happy''))
              \<and> sampled_subset df_example ''Happy'' 2 p
                  = Inr (map (\<lambda>i. candidate_subset df_example ''Happy'' ! i) [2, 0])
              \<and> sample_positions (nat 2) p = [2, 0]}
            = fact (length (candidate_subset df_example ''Happy'') - nat 2)"
    using T lim ps by blast
  have smp': "sampled_subset df_example ''Happy'' 2 [2, 0, 1] = Inr [row_blank, row_sunny]"
    using smp by (simp add: c sample_positions_def)
  have crd': "card {p. is_permutation p 3
              \<and> sampled_subset df_example ''Happy'' 2 p = Inr [row_blank, row_sunny]
              \<and> sample_positions 2 p = [2, 0]} = 1"
    using crd by (simp add: c numeral_3_eq_3)
  show ?thesis
    using v ret smp' s crd' by blast
qed

lemma example_happy_rows: "filter_df_for_mood df_example ''Happy'' = [row_sunny, row_web, row_blank]"
  by code_simp

lemma example_sampled:
  "sampled_subset df_example ''Happy'' 2 [2, 0, 1] = Inr [row_blank, row_sunny]"
  by code_simp

lemma example_songs: "build_songs [row_blank, row_sunny] = [song_sunny]"
  by code_simp

lemma example_names:
  "filter (\<lambda>r. display_name r \<noteq> []) [row_sunny, row_web, row_blank] = [row_sunny, row_web]"
  by code_simp

text \<open>
  C7. The loop runs over the rows that were kept after sampling and skips every row whose
  name is empty after trimming; the descriptors are exactly those of the remaining rows,
  in order, so each skipped row makes the result one shorter and nothing replaces it.
  In the example, three rows match Happy and two of them have a name; with limit 2 and a
  permutation that starts with the blank row and a named row, one descriptor is returned.
\<close>

theorem empty_names_skipped_without_backfill:
  "(sampled_subset df mood limit perm = Inr rows \<longrightarrow>
      recommend_songs_for_mood df mood limit perm = Inr (build_songs rows)
      \<and> map song_name (build_songs rows)
          = map display_name (filter (\<lambda>r. display_name r \<noteq> []) rows)
      \<and> length (build_songs rows)
          = length rows - length (filter (\<lambda>r. display_name r = []) rows))
   \<and> (is_permutation [2, 0, 1] (length (candidate_subset df_example ''Happy''))
      \<and> sample_positions 2 [2, 0, 1] = [2, 0]
      \<and> recommend_songs_for_mood df_example ''Happy'' 2 [2, 0, 1] = Inr [song_sunny]
      \<and> length [song_sunny] < 2
      \<and> 2 \<le> length (filter (\<lambda>r. display_name r \<noteq> [])
                     (filter_df_for_mood df_example ''Happy'')))"
proof -
  have general: "recommend_songs_for_mood df mood limit perm = Inr (build_songs rows)
      \<and> map song_name (build_songs rows)
          = map display_name (filter (\<lambda>r. display_name r \<noteq> []) rows)
      \<and> length (build_songs rows)
          = length rows - length (filter (\<lambda>r. display_name r = []) rows)"
    if s: "sampled_subset df mood limit perm = Inr rows"
  proof -
    have "length (filter (\<lambda>r. display_name r \<noteq> []) rows)
            + length (filter (\<lambda>r. display_name r = []) rows) = length rows"
      using sum_length_filter_compl [of "\<lambda>r. display_name r \<noteq> []" rows] by simp
    then have "length (build_songs rows)
                 = length rows - length (filter (\<lambda>r. display_name r = []) rows)"
      by (simp add: length_build_songs_filter)
    then show ?thesis
      using s by (simp add: recommend_songs_for_mood_def names_build_songs)
  qed
  have c: "candidate_subset df_example ''Happy'' = [row_sunny, row_web, row_blank]"
    by (simp add: candidate_subset_def example_happy_rows)
  have v: "is_permutation [2, 0, 1] (length (candidate_subset df_example ''Happy''))"
    by (simp add: c is_permutation_def)
  have t: "sample_positions 2 [2, 0, 1] = [2, 0]"
    by (simp add: sample_positions_def)
  have r: "recommend_songs_for_mood df_example ''Happy'' 2 [2, 0, 1] = Inr [song_sunny]"
    by (simp only: recommend_songs_for_mood_def example_sampled example_songs sum.case)
  have n: "2 \<le> length (filter (\<lambda>r. display_name r \<noteq> [])
                     (filter_df_for_mood df_example ''Happy''))"
    by (simp only: example_happy_rows example_names) simp
  show ?thesis
    using general v t r n by simp
qed

theorem empty_names_skipped_without_backfill_witness:
  "sampled_subset df_example ''Happy'' 2 [2, 0, 1] = Inr [row_blank, row_sunny]
   \<and> recommend_songs_for_mood df_example ''Happy'' 2 [2, 0, 1]
       = Inr (build_songs [row_blank, row_sunny])
   \<and> length (build_songs [row_blank, row_sunny]) = 1"
proof -
  have "filter (\<lambda>r. display_name r = []) [row_blank, row_sunny] = [row_blank]"
    by code_simp
  then show ?thesis
    using empty_names_skipped_without_backfill
            [of df_example "''Happy''" 2 "[2, 0, 1]" "[row_blank, row_sunny]"] example_sampled
    by simp
qed

text \<open>
  C10. When every row the loop runs over has a name that is empty after trimming, the
  call returns the empty list, also for a dataset that has rows: for the dataset of the
  blank row alone, and for the blank row and a named row with limit 1 when the
  permutation starts with the blank row.
\<close>

theorem recommend_may_return_nothing:
  "(sampled_subset df mood limit perm = Inr rows \<and> (\<forall>r \<in> set rows. display_name r = [])
      \<longrightarrow> recommend_songs_for_mood df mood limit perm = Inr [])
   \<and> ([row_blank] \<noteq> [] \<and> recommend_songs_for_mood [row_blank] ''Happy'' 10 [] = Inr [])
   \<and> (is_permutation [0, 1] (length (candidate_subset [row_blank, row_sunny] ''Happy''))
      \<and> sample_positions 1 [0, 1] = [0]
      \<and> recommend_songs_for_mood [row_blank, row_sunny] ''Happy'' 1 [0, 1] = Inr [])"
proof -
  have general: "recommend_songs_for_mood df mood limit perm = Inr []"
    if "sampled_subset df mood limit perm = Inr rows \<and> (\<forall>r \<in> set rows. display_name r = [])"
    using that by (simp add: recommend_songs_for_mood_def build_songs_all_blank)
  have one: "recommend_songs_for_mood [row_blank] ''Happy'' 10 [] = Inr []"
    by code_simp
  have c: "candidate_subset [row_blank, row_sunny] ''Happy'' = [row_blank, row_sunny]"
    by code_simp
  have two: "recommend_songs_for_mood [row_blank, row_sunny] ''Happy'' 1 [0, 1] = Inr []"
    by code_simp
  show ?thesis
    using general one two by (simp add: c is_permutation_def sample_positions_def)
qed

theorem recommend_may_return_nothing_witness:
  "sampled_subset [row_blank, row_sunny] ''Happy'' 1 [0, 1] = Inr [row_blank]
   \<and> list_all (\<lambda>r. display_name r = []) [row_blank]
   \<and> recommend_songs_for_mood [row_blank, row_sunny] ''Happy'' 1 [0, 1] = Inr []"
proof -
  have s: "sampled_subset [row_blank, row_sunny] ''Happy'' 1 [0, 1] = Inr [row_blank]"
    by code_simp
  have b: "display_name row_blank = []"
    by code_simp
  show ?thesis
    using recommend_may_return_nothing
            [of "[row_blank, row_sunny]" "''Happy''" 1 "[0, 1]" "[row_blank]"] s b
    by simp
qed

section \<open>Properties of the link of a descriptor\<close>

lemma split_from_no_sep:
  "sep \<noteq> [] \<Longrightarrow> \<not> sublist sep s \<Longrightarrow> split_from sep acc s = [rev acc @ s]"
proof (induction sep acc s rule: split_from.induct)
  case (1 sep acc s)
  show ?case
  proof (cases "s = []")
    case True
    then show ?thesis by (simp add: split_from.simps)
  next
    case False
    then obtain c s' where s: "s = c # s'"
      by (cases s) auto
    have np: "\<not> prefix sep s"
      using "1.prems"(2) prefix_imp_sublist by blast
    have "\<not> sublist sep s'"
      using "1.prems"(2) s by (auto simp add: sublist_Cons_right)
    then have "split_from sep (hd s # acc) (tl s) = [rev (hd s # acc) @ tl s]"
      using "1.IH"(2) [OF _ np] "1.prems"(1) False s by simp
    then show ?thesis
      using np False "1.prems"(1) s by (subst split_from.simps) simp
  qed
qed

lemma last_split_single:
  assumes "sep \<noteq> []" and "\<not> sublist sep ident"
  shows "last (split (sep @ ident) sep) = ident"
proof -
  have "split_from sep [] (sep @ ident) = [] # split_from sep [] ident"
    using assms(1) by (subst split_from.simps) simp
  then show ?thesis
    using split_from_no_sep [OF assms, of "[]"] by (simp add: split_def)
qed

lemma resolve_uri_cases:
  "resolve_uri r name =
     (if startswith (uri_text r) ''spotify:track:''
      then ''https://open.spotify.com/track/'' @ last (split (uri_text r) ''spotify:track:'')
      else if startswith (uri_text r) ''http://'' \<or> startswith (uri_text r) ''https://''
      then uri_text r
      else ''https://www.youtube.com/results?search_query=''
             @ quote_plus (strip (name @ '' '' @ py_str (row_get (r_artist r) (PStr [])))))"
  by (auto simp add: resolve_uri_def Let_def startswith_def)

lemma resolve_uri_http:
  "resolve_uri r name \<noteq> []
   \<and> (startswith (resolve_uri r name) ''http://'' \<or> startswith (resolve_uri r name) ''https://'')"
  by (auto simp add: resolve_uri_cases startswith_def)

lemma song_of_row_uri:
  "song_of_row r = Some s \<Longrightarrow> song_uri s = Some (resolve_uri r (display_name r))"
  using resolve_uri_http [of r "display_name r"]
  by (auto simp add: song_of_row_def Let_def split: if_splits)

text \<open>
  C4 as the code has it. The link of every descriptor is present, not empty and starts
  with \<open>http://\<close> or \<open>https://\<close>. It is computed from the raw value after trimming (the
  empty text when the raw value is not a string): a trimmed value that starts with
  \<open>spotify:track:\<close> becomes the Spotify web address of the text after the last
  \<open>spotify:track:\<close> (the track id, when the marker occurs once); otherwise a trimmed
  value that starts with \<open>http://\<close> or \<open>https://\<close> is the link; every other value gives
  the YouTube search address of the URL-encoded, trimmed text of name, blank and artist.
\<close>

theorem song_uri_is_http_url:
  assumes "song_of_row r = Some s"
  shows "\<exists>u. song_uri s = Some u \<and> u \<noteq> []
           \<and> (startswith u ''http://'' \<or> startswith u ''https://'')
           \<and> (startswith (uri_text r) ''spotify:track:'' \<longrightarrow>
                u = ''https://open.spotify.com/track/''
                      @ last (split (uri_text r) ''spotify:track:''))
           \<and> (\<forall>ident. uri_text r = ''spotify:track:'' @ ident
                  \<and> \<not> sublist ''spotify:track:'' ident \<longrightarrow>
                u = ''https://open.spotify.com/track/'' @ ident)
           \<and> (\<not> startswith (uri_text r) ''spotify:track:''
                \<and> (startswith (uri_text r) ''http://'' \<or> startswith (uri_text r) ''https://'')
                \<longrightarrow> u = uri_text r)
           \<and> (\<not> startswith (uri_text r) ''spotify:track:''
                \<and> \<not> startswith (uri_text r) ''http://''
                \<and> \<not> startswith (uri_text r) ''https://'' \<longrightarrow>
                u = ''https://www.youtube.com/results?search_query=''
                      @ quote_plus (strip (display_name r @ '' ''
                                             @ py_str (row_get (r_artist r) (PStr [])))))"
proof -
  let ?u = "resolve_uri r (display_name r)"
  have u: "song_uri s = Some ?u"
    using assms by (rule song_of_row_uri)
  have http: "?u \<noteq> [] \<and> (startswith ?u ''http://'' \<or> startswith ?u ''https://'')"
    by (rule resolve_uri_http)
  have spotify: "?u = ''https://open.spotify.com/track/''
                        @ last (split (uri_text r) ''spotify:track:'')"
    if "startswith (uri_text r) ''spotify:track:''"
    using that by (simp add: resolve_uri_cases)
  have track: "?u = ''https://open.spotify.com/track/'' @ ident"
    if "uri_text r = ''spotify:track:'' @ ident \<and> \<not> sublist ''spotify:track:'' ident"
    for ident
  proof -
    have "startswith (uri_text r) ''spotify:track:''"
      using that by (simp add: startswith_def)
    moreover have "last (split (uri_text r) ''spotify:track:'') = ident"
      using that last_split_single [of "''spotify:track:''" ident] by simp
    ultimately show ?thesis
      by (simp add: resolve_uri_cases)
  qed
  have web: "?u = uri_text r"
    if "\<not> startswith (uri_text r) ''spotify:track:''
        \<and> (startswith (uri_text r) ''http://'' \<or> startswith (uri_text r) ''https://'')"
    using that by (simp add: resolve_uri_cases)
  have search: "?u = ''https://www.youtube.com/results?search_query=''
                       @ quote_plus (strip (display_name r @ '' ''
                                              @ py_str (row_get (r_artist r) (PStr []))))"
    if "\<not> startswith (uri_text r) ''spotify:track:''
        \<and> \<not> startswith (uri_text r) ''http://''
        \<and> \<not> startswith (uri_text r) ''https://''"
    using that by (simp add: resolve_uri_cases)
  show ?thesis
    using u http spotify track web search by blast
qed

theorem song_uri_is_http_url_witness:
  "song_of_row row_rain = Some song_rain
   \<and> uri_text row_rain = ''spotify:track:'' @ ''ABC123''
   \<and> \<not> sublist ''spotify:track:'' ''ABC123''
   \<and> song_uri song_rain = Some ''https://open.spotify.com/track/ABC123''
   \<and> startswith ''https://open.spotify.com/track/ABC123'' ''https://''"
proof -
  have s: "song_of_row row_rain = Some song_rain"
    by code_simp
  have t: "uri_text row_rain = ''spotify:track:'' @ ''ABC123''"
    by code_simp
  have n: "\<not> sublist ''spotify:track:'' ''ABC123''"
    using sublist_length_le [of "''spotify:track:''" "''ABC123''"] by auto
  have "song_uri song_rain = Some (''https://open.spotify.com/track/'' @ ''ABC123'')"
    using song_uri_is_http_url [OF s] t n by auto
  then show ?thesis
    using s t n by (simp add: startswith_def)
qed

text \<open>
  Against C4 as stated: the raw value \<open>https://example.com/a\<close> followed by a blank starts
  with \<open>https://\<close>, and the link of the descriptor is the trimmed text, not the raw value.
\<close>

theorem raw_http_uri_unchanged_counterexample:
  "r_uri row_web = Some (PStr ''https://example.com/a '')
   \<and> startswith ''https://example.com/a '' ''https://''
   \<and> song_of_row row_web = Some song_web
   \<and> song_uri song_web = Some ''https://example.com/a''
   \<and> ''https://example.com/a'' \<noteq> ''https://example.com/a ''"
proof -
  have "song_of_row row_web = Some song_web"
    by code_simp
  then show ?thesis
    by (simp add: row_web_def song_web_def startswith_def)
qed

section \<open>Properties of the classifier service\<close>

lemma argmax_from_spec:
  assumes "p = pre @ vs" and "length pre = i" and "best < i" and "p ! best = bv"
    and "\<forall>j<i. p ! j \<le> bv" and "\<forall>j<best. p ! j < bv"
  shows "argmax_from best bv i vs < length p
         \<and> (\<forall>j<length p. p ! j \<le> p ! argmax_from best bv i vs)
         \<and> (\<forall>j<argmax_from best bv i vs. p ! j < p ! argmax_from best bv i vs)"
  using assms
proof (induction vs arbitrary: best bv i pre)
  case Nil
  then show ?case by simp
next
  case (Cons v vs)
  have pi: "p ! i = v"
    using Cons.prems(1,2) by (simp add: nth_append)
  have split: "p = (pre @ [v]) @ vs" and len: "length (pre @ [v]) = Suc i"
    using Cons.prems(1,2) by simp_all
  show ?case
  proof (cases "bv < v")
    case True
    have le: "\<forall>j<Suc i. p ! j \<le> v"
      using Cons.prems(5) True pi by (auto simp add: less_Suc_eq)
    have lt: "\<forall>j<i. p ! j < v"
      using Cons.prems(5) True by fastforce
    show ?thesis
      using Cons.IH [OF split len _ pi le lt] True by simp
  next
    case False
    have le: "\<forall>j<Suc i. p ! j \<le> bv"
      using Cons.prems(5) False pi by (auto simp add: less_Suc_eq)
    have b: "best < Suc i"
      using Cons.prems(3) by simp
    show ?thesis
      using Cons.IH [OF split len b Cons.prems(4) le Cons.prems(6)] False by simp
  qed
qed

lemma argmax_spec:
  assumes "p \<noteq> []"
  shows "\<exists>i. argmax p = Inr i \<and> i < length p \<and> (\<forall>j<length p. p ! j \<le> p ! i)
             \<and> (\<forall>j<i. p ! j < p ! i)"
proof -
  obtain v vs where p: "p = v # vs"
    using assms by (cases p) auto
  have "argmax_from 0 v 1 vs < length p
        \<and> (\<forall>j<length p. p ! j \<le> p ! argmax_from 0 v 1 vs)
        \<and> (\<forall>j<argmax_from 0 v 1 vs. p ! j < p ! argmax_from 0 v 1 vs)"
    by (rule argmax_from_spec [where pre = "[v]"]) (simp_all add: p)
  then show ?thesis
    by (simp add: argmax_def p)
qed

lemma EMOTION_DICT_below_4:
  assumes "i < 4"
  shows "\<exists>label. EMOTION_DICT i = Some label
           \<and> label \<in> {''Angry'', ''Sad'', ''Happy'', ''Calm''}"
proof -
  have "i = 0 \<or> i = 1 \<or> i = 2 \<or> i = 3"
    using assms by arith
  then show ?thesis
    by (auto simp add: EMOTION_DICT_def)
qed

text \<open>
  C8. For an image that decodes, with the region resized, the model available and a
  prediction of four values, the call returns the label that \<open>_EMOTION_DICT\<close> gives the
  position of the largest value: one of Angry, Sad, Happy, Calm; among equal largest
  values the first position is taken; the size of the largest value plays no part.
\<close>

theorem predicted_label_is_argmax:
  assumes "image_bytes \<noteq> []"
    and "imdecode e image_bytes = Some frame"
    and "resize e (extract_roi (cvtColor e frame) (detectMultiScale e (cvtColor e frame)))
           = Inr img"
    and "get_model e st = (Inr m, st')"
    and "predict e m img = Inr p"
    and "length p = 4"
  shows "\<exists>i label. predict_mood_from_image_bytes e st image_bytes = (Inr label, st')
           \<and> label \<in> {''Angry'', ''Sad'', ''Happy'', ''Calm''}
           \<and> i < 4 \<and> EMOTION_DICT i = Some label
           \<and> (\<forall>j<4. p ! j \<le> p ! i) \<and> (\<forall>j<i. p ! j < p ! i)"
proof -
  have "p \<noteq> []"
    using assms(6) by auto
  then obtain i where i: "argmax p = Inr i" "i < length p" "\<forall>j<length p. p ! j \<le> p ! i"
      "\<forall>j<i. p ! j < p ! i"
    using argmax_spec by blast
  obtain label where l: "EMOTION_DICT i = Some label"
      "label \<in> {''Angry'', ''Sad'', ''Happy'', ''Calm''}"
    using EMOTION_DICT_below_4 [of i] i(2) assms(6) by auto
  have "predict_mood_from_image_bytes e st image_bytes = (Inr label, st')"
    using assms(1-5) i(1) l(1)
    by (simp add: predict_mood_from_image_bytes_def Let_def dict_get_def)
  then show ?thesis
    using i l assms(6) by auto
qed

theorem predicted_label_is_argmax_witness:
  "[255] \<noteq> ([] :: 8 word list)
   \<and> imdecode env_ok [255] = Some [[(0, 0, 0)]]
   \<and> resize env_ok (extract_roi (cvtColor env_ok [[(0, 0, 0)]])
                       (detectMultiScale env_ok (cvtColor env_ok [[(0, 0, 0)]]))) = Inr [[0]]
   \<and> get_model env_ok st0
       = (Inr \<lparr> layers = architecture, weights = Some [1, 2, 3] \<rparr>,
          \<lparr> model = Some \<lparr> layers = architecture, weights = Some [1, 2, 3] \<rparr> \<rparr>)
   \<and> predict env_ok \<lparr> layers = architecture, weights = Some [1, 2, 3] \<rparr> [[0]]
       = Inr [1 / 10, 2 / 5, 2 / 5, 1 / 10]
   \<and> length [1 / 10, 2 / 5, 2 / 5, 1 / 10 :: rat] = 4
   \<and> (\<exists>i label. predict_mood_from_image_bytes env_ok st0 [255]
          = (Inr label, \<lparr> model = Some \<lparr> layers = architecture, weights = Some [1, 2, 3] \<rparr> \<rparr>)
        \<and> label \<in> {''Angry'', ''Sad'', ''Happy'', ''Calm''}
        \<and> i < 4 \<and> EMOTION_DICT i = Some label
        \<and> (\<forall>j<4. [1 / 10, 2 / 5, 2 / 5, 1 / 10 :: rat] ! j \<le> [1 / 10, 2 / 5, 2 / 5, 1 / 10] ! i)
        \<and> (\<forall>j<i. [1 / 10, 2 / 5, 2 / 5, 1 / 10 :: rat] ! j < [1 / 10, 2 / 5, 2 / 5, 1 / 10] ! i))"
proof -
  have a: "[255] \<noteq> ([] :: 8 word list)"
    by simp
  have b: "imdecode env_ok [255] = Some [[(0, 0, 0)]]"
    by (simp add: env_ok_def)
  have c: "resize env_ok (extract_roi (cvtColor env_ok [[(0, 0, 0)]])
                       (detectMultiScale env_ok (cvtColor env_ok [[(0, 0, 0)]]))) = Inr [[0]]"
    by (simp add: env_ok_def extract_roi_def shape_def crop_def slice_def)
  have d: "get_model env_ok st0
       = (Inr \<lparr> layers = architecture, weights = Some [1, 2, 3] \<rparr>,
          \<lparr> model = Some \<lparr> layers = architecture, weights = Some [1, 2, 3] \<rparr> \<rparr>)"
    by (simp add: env_ok_def st0_def get_model_def build_model_def)
  have e: "predict env_ok \<lparr> layers = architecture, weights = Some [1, 2, 3] \<rparr> [[0]]
       = Inr [1 / 10, 2 / 5, 2 / 5, 1 / 10]"
    by (simp add: env_ok_def)
  have f: "length [1 / 10, 2 / 5, 2 / 5, 1 / 10 :: rat] = 4"
    by simp
  show ?thesis
    using predicted_label_is_argmax [OF a b c d e f] a b c d e f by blast
qed

lemma example_tie_lowest_index: "fst (predict_mood_from_image_bytes env_ok st0 [255]) = Inr ''Sad''"
  by code_simp

lemma shape_rect:
  assumes "length gray = h" and "\<forall>r \<in> set gray. length r = w" and "gray \<noteq> []"
  shows "shape gray = (h, w)"
  using assms by (cases gray) (simp_all add: shape_def)

lemma crop_dims:
  assumes "length gray = h" and "\<forall>r \<in> set gray. length r = w"
    and "y0 + s \<le> h" and "x0 + s \<le> w"
  shows "length (crop gray y0 (y0 + s) x0 (x0 + s)) = s
         \<and> (\<forall>r \<in> set (crop gray y0 (y0 + s) x0 (x0 + s)). length r = s)
         \<and> (\<forall>i < s. \<forall>j < s. crop gray y0 (y0 + s) x0 (x0 + s) ! i ! j = gray ! (y0 + i) ! (x0 + j))"
proof -
  have len: "length (crop gray y0 (y0 + s) x0 (x0 + s)) = s"
    using assms(1,3) by (simp add: crop_def slice_def)
  have rows: "length r = s" if "r \<in> set (crop gray y0 (y0 + s) x0 (x0 + s))" for r
  proof -
    have "r \<in> (\<lambda>r. slice r x0 (x0 + s)) ` set (slice gray y0 (y0 + s))"
      using that by (simp add: crop_def)
    then obtain r' where r': "r' \<in> set (slice gray y0 (y0 + s))" "r = slice r' x0 (x0 + s)"
      by blast
    have "r' \<in> set gray"
      using r'(1) unfolding slice_def by (blast dest: in_set_takeD in_set_dropD)
    then show ?thesis
      using assms(2,4) r'(2) by (simp add: slice_def)
  qed
  have px: "crop gray y0 (y0 + s) x0 (x0 + s) ! i ! j = gray ! (y0 + i) ! (x0 + j)"
    if "i < s" and "j < s" for i j
  proof -
    have "y0 + i < length gray"
      using that(1) assms(1,3) by simp
    then have "length (gray ! (y0 + i)) = w"
      using assms(2) by simp
    then show ?thesis
      using that assms(1,3,4) by (simp add: crop_def slice_def)
  qed
  show ?thesis
    using len rows px by blast
qed

text \<open>
  C9. When no face is found in a grayscale image of \<open>h\<close> rows and \<open>w\<close> columns, the region
  is the square of side \<open>min h w\<close> in the middle of the image: it starts at row
  \<open>(h - side) div 2\<close> and column \<open>(w - side) div 2\<close>. For 100 rows of 200 pixels it is the
  100 by 100 square that starts at column 50.
\<close>

theorem no_face_center_crop:
  assumes "length gray = h" and "\<forall>r \<in> set gray. length r = w"
  shows "length (extract_roi gray []) = min h w
         \<and> (\<forall>r \<in> set (extract_roi gray []). length r = min h w)
         \<and> (\<forall>i<min h w. \<forall>j<min h w.
               extract_roi gray [] ! i ! j
                 = gray ! ((h - min h w) div 2 + i) ! ((w - min h w) div 2 + j))
         \<and> (h = 100 \<and> w = 200 \<longrightarrow>
               length (extract_roi gray []) = 100
               \<and> (\<forall>r \<in> set (extract_roi gray []). length r = 100)
               \<and> (\<forall>i<100. \<forall>j<100. extract_roi gray [] ! i ! j = gray ! i ! (50 + j)))"
proof -
  let ?s = "min h w"
  let ?y0 = "(h - ?s) div 2"
  let ?x0 = "(w - ?s) div 2"
  have general: "length (extract_roi gray []) = ?s
         \<and> (\<forall>r \<in> set (extract_roi gray []). length r = ?s)
         \<and> (\<forall>i < ?s. \<forall>j < ?s. extract_roi gray [] ! i ! j = gray ! (?y0 + i) ! (?x0 + j))"
  proof (cases "gray = []")
    case True
    then show ?thesis
      using assms(1) by (simp add: extract_roi_def shape_def crop_def slice_def)
  next
    case False
    have roi: "extract_roi gray [] = crop gray ?y0 (?y0 + ?s) ?x0 (?x0 + ?s)"
      using shape_rect [OF assms False] by (simp add: extract_roi_def Let_def)
    have le1: "?y0 + ?s \<le> h" and le2: "?x0 + ?s \<le> w"
      by auto
    show ?thesis
      unfolding roi by (rule crop_dims [OF assms le1 le2])
  qed
  have "(h - min h w) div 2 = 0 \<and> (w - min h w) div 2 = 50 \<and> min h w = 100"
    if "h = 100 \<and> w = 200"
    using that by simp
  then show ?thesis
    using general by (metis add_0)
qed

theorem no_face_center_crop_witness:
  "length gray_200x100 = 100
   \<and> list_all (\<lambda>r. length r = 200) gray_200x100
   \<and> length (extract_roi gray_200x100 []) = 100
   \<and> list_all (\<lambda>r. length r = 100) (extract_roi gray_200x100 [])
   \<and> extract_roi gray_200x100 [] ! 0 ! 0 = 50
   \<and> extract_roi gray_200x100 [] ! 99 ! 99 = 149"
proof -
  have a: "length gray_200x100 = 100"
    by (simp add: gray_200x100_def)
  have b: "\<forall>r \<in> set gray_200x100. length r = 200"
    by (simp add: gray_200x100_def)
  have c: "gray_200x100 ! 0 ! (50 + 0) = 50" "gray_200x100 ! 99 ! (50 + 99) = 149"
    by (simp_all add: gray_200x100_def)
  have d: "length (extract_roi gray_200x100 []) = 100
           \<and> (\<forall>r \<in> set (extract_roi gray_200x100 []). length r = 100)
           \<and> (\<forall>i<100. \<forall>j<100.
                 extract_roi gray_200x100 [] ! i ! j = gray_200x100 ! i ! (50 + j))"
    using no_face_center_crop [OF a b] by blast
  then have "extract_roi gray_200x100 [] ! 0 ! 0 = gray_200x100 ! 0 ! (50 + 0)"
    and "extract_roi gray_200x100 [] ! 99 ! 99 = gray_200x100 ! 99 ! (50 + 99)"
    by simp_all
  then show ?thesis
    using a b c d by (simp add: list_all_iff)
qed

lemma get_model_cached: "model st = Some m \<Longrightarrow> get_model e st = (Inr m, st)"
  by (simp add: get_model_def)

lemma get_model_unset:
  "model st = None \<Longrightarrow>
   get_model e st =
     (case build_model e of Inl x \<Rightarrow> (Inl x, st) | Inr m \<Rightarrow> (Inr m, st\<lparr>model := Some m\<rparr>))"
  by (simp add: get_model_def)

text \<open>
  C3 as the code has it. With the weight file missing and no model cached, \<open>_get_model\<close>
  raises \<open>FileNotFoundError\<close> and leaves \<open>_model\<close> unset. Nothing records the failure: the
  next call, in the state the failed call left, runs \<open>_build_model\<close> again, whatever the
  environment then is, and loads and caches the model when the file is there. Only a
  model that was loaded is never built again.
\<close>

theorem load_failure_is_not_remembered:
  assumes "weights_file e = None" and "model st = None"
  shows "(\<exists>msg. get_model e st = (Inl (FileNotFoundError msg), st))
         \<and> (\<forall>e'. get_model e' (snd (get_model e st)) =
                (case build_model e' of
                   Inl x \<Rightarrow> (Inl x, st)
                 | Inr m \<Rightarrow> (Inr m, st\<lparr>model := Some m\<rparr>)))
         \<and> (\<forall>e' w. weights_file e' = Some (Inr w) \<longrightarrow>
                get_model e' (snd (get_model e st)) =
                  (Inr \<lparr> layers = architecture, weights = Some w \<rparr>,
                   st\<lparr>model := Some \<lparr> layers = architecture, weights = Some w \<rparr>\<rparr>))
         \<and> (\<forall>e' e'' m st'. get_model e' (snd (get_model e st)) = (Inr m, st') \<longrightarrow>
                get_model e'' st' = (Inr m, st'))"
proof -
  have fail: "get_model e st
                = (Inl (FileNotFoundError
                     (''Emotion model weights not found at '' @ weights_path e @ ''. ''
                      @ ''Make sure the 'Mood-Based-Song-Recommender-main' project (with the ''
                      @ '''Model/model_weights_training_optimal.h5' file) exists under the ''
                      @ ''project root (EDI@).'')), st)"
    using assms by (simp add: get_model_def build_model_def)
  then have same: "snd (get_model e st) = st"
    by simp
  have again: "get_model e' (snd (get_model e st)) =
                (case build_model e' of
                   Inl x \<Rightarrow> (Inl x, st)
                 | Inr m \<Rightarrow> (Inr m, st\<lparr>model := Some m\<rparr>))" for e'
    unfolding same using assms(2) by (rule get_model_unset)
  have loads: "get_model e' (snd (get_model e st)) =
                  (Inr \<lparr> layers = architecture, weights = Some w \<rparr>,
                   st\<lparr>model := Some \<lparr> layers = architecture, weights = Some w \<rparr>\<rparr>)"
    if "weights_file e' = Some (Inr w)" for e' w
    using that by (simp add: again build_model_def)
  have cached: "get_model e'' st' = (Inr m, st')"
    if "get_model e' (snd (get_model e st)) = (Inr m, st')" for e' e'' m st'
  proof -
    have "model st' = Some m"
      using that by (auto simp add: again split: sum.splits)
    then show ?thesis
      by (rule get_model_cached)
  qed
  show ?thesis
    using fail again loads cached by blast
qed

theorem load_failure_is_not_remembered_witness:
  "weights_file env_missing = None \<and> model st0 = None
   \<and> (\<exists>msg. get_model env_missing st0 = (Inl (FileNotFoundError msg), st0))
   \<and> get_model env_ok (snd (get_model env_missing st0))
       = (Inr \<lparr> layers = architecture, weights = Some [1, 2, 3] \<rparr>,
          st0\<lparr>model := Some \<lparr> layers = architecture, weights = Some [1, 2, 3] \<rparr>\<rparr>)"
proof -
  have a: "weights_file env_missing = None"
    by (simp add: env_missing_def)
  have b: "model st0 = None"
    by (simp add: st0_def)
  have c: "weights_file env_ok = Some (Inr [1, 2, 3])"
    by (simp add: env_ok_def)
  show ?thesis
    using load_failure_is_not_remembered [OF a b] a b c by blast
qed

text \<open>
  Against C3 as stated: in a fresh process the first request finds no weight file and
  fails with \<open>FileNotFoundError\<close>; the second request of the same process, made when the
  file is there, builds and loads the model and returns a label.
\<close>

theorem load_not_retried_counterexample:
  "fst (predict_mood_from_image_bytes env_missing st0 [255])
     = Inl (FileNotFoundError
         (''Emotion model weights not found at /srv/Model/model_weights_training_optimal.h5. ''
          @ ''Make sure the 'Mood-Based-Song-Recommender-main' project (with the ''
          @ '''Model/model_weights_training_optimal.h5' file) exists under the ''
          @ ''project root (EDI@).''))
   \<and> snd (predict_mood_from_image_bytes env_missing st0 [255]) = st0
   \<and> predict_mood_from_image_bytes env_ok
        (snd (predict_mood_from_image_bytes env_missing st0 [255])) [255]
       = (Inr ''Sad'', \<lparr> model = Some \<lparr> layers = architecture, weights = Some [1, 2, 3] \<rparr> \<rparr>)"
proof -
  have first: "predict_mood_from_image_bytes env_missing st0 [255]
     = (Inl (FileNotFoundError
         (''Emotion model weights not found at /srv/Model/model_weights_training_optimal.h5. ''
          @ ''Make sure the 'Mood-Based-Song-Recommender-main' project (with the ''
          @ '''Model/model_weights_training_optimal.h5' file) exists under the ''
          @ ''project root (EDI@).'')), st0)"
    by code_simp
  have second: "predict_mood_from_image_bytes env_ok st0 [255]
       = (Inr ''Sad'', \<lparr> model = Some \<lparr> layers = architecture, weights = Some [1, 2, 3] \<rparr> \<rparr>)"
    by code_simp
  show ?thesis
    by (simp only: first second fst_conv snd_conv)
qed

section \<open>Properties of the route\<close>

text \<open>
  C2 as the code has it. When classification of a non-empty upload raises, the route
  answers with one error of status 500 whose detail is the text
  \<open>Failed to analyze image: \<close> followed by the message of the exception that was raised.
\<close>

theorem analysis_failure_detail_has_cause:
  assumes "data \<noteq> []"
    and "predict_mood_from_image_bytes e st data = (Inl exc, st')"
  shows "detect_mood e df perm st data
           = (Raised \<lparr> status_code = 500,
                        detail = ''Failed to analyze image: '' @ exn_str exc \<rparr>, st')"
  using assms by (simp add: detect_mood_def)

theorem analysis_failure_detail_has_cause_witness:
  "[255] \<noteq> ([] :: 8 word list)
   \<and> predict_mood_from_image_bytes env_undecodable st0 [255]
       = (Inl (ValueError ''Could not decode image data.''), st0)
   \<and> detect_mood env_undecodable df_example [] st0 [255]
       = (Raised \<lparr> status_code = 500,
                    detail = ''Failed to analyze image: Could not decode image data.'' \<rparr>, st0)"
proof -
  have a: "[255] \<noteq> ([] :: 8 word list)"
    by simp
  have b: "predict_mood_from_image_bytes env_undecodable st0 [255]
             = (Inl (ValueError ''Could not decode image data.''), st0)"
    by (simp add: predict_mood_from_image_bytes_def env_undecodable_def env_ok_def)
  show ?thesis
    using analysis_failure_detail_has_cause [OF a b, of df_example "[]"] a b by simp
qed

text \<open>
  Against C2 as stated: when the network fails while predicting, the detail returned to
  the caller ends with the message of that failure.
\<close>

theorem opaque_analysis_error_counterexample:
  "fst (predict_mood_from_image_bytes env_oom st0 [255])
     = Inl (LibraryError ''OOM when allocating tensor'')
   \<and> fst (detect_mood env_oom df_example [] st0 [255])
     = Raised \<lparr> status_code = 500,
                 detail = ''Failed to analyze image: OOM when allocating tensor'' \<rparr>
   \<and> suffix ''OOM when allocating tensor''
        ''Failed to analyze image: OOM when allocating tensor''"
proof -
  have p: "predict_mood_from_image_bytes env_oom st0 [255]
             = (Inl (LibraryError ''OOM when allocating tensor''),
                \<lparr> model = Some \<lparr> layers = architecture, weights = Some [1, 2, 3] \<rparr> \<rparr>)"
    by code_simp
  have "suffix ''OOM when allocating tensor''
          (''Failed to analyze image: '' @ ''OOM when allocating tensor'')"
    by (rule suffix_appendI) simp
  then show ?thesis
    by (simp add: detect_mood_def p)
qed

end
